theory Spec2Isabelle
  imports Complex_Main "HOL-Library.Word" "HOL-Library.Sublist" "HOL-Library.Log_Nat"
begin

unbundle bit_operations_syntax

section \<open>Codec catalogue\<close>

text \<open>
  Both programs (\<^verbatim>\<open>codec_tester.py\<close>, the command-line bench, and
  \<^verbatim>\<open>codec_tester_gui.py\<close>, the graphical bench) start with a dictionary
  \<^verbatim>\<open>CODECS = { KEY: (display_name, media_codec_type, codec_info_bytes) }\<close>.
  A Python dictionary keeps insertion order and \<^verbatim>\<open>list(CODECS.keys())\<close> is used
  by the presets, so the catalogue is an association list; \<open>map_of\<close> is the lookup.
  A \<^verbatim>\<open>bytes\<close> value is a list of 8-bit words.
\<close>

type_synonym byte = "8 word"
type_synonym bytes = "byte list"
type_synonym codec_entry = "string \<times> nat \<times> bytes"

definition QUALCOMM :: bytes where
  "QUALCOMM = [0xD0, 0x00, 0x00, 0x00]"

definition SONY :: bytes where
  "SONY = [0x2D, 0x01, 0x00, 0x00]"

definition SAVITECH :: bytes where
  "SAVITECH = [0x3A, 0x05, 0x00, 0x00]"

text \<open>The catalogue of \<^verbatim>\<open>codec_tester.py\<close>.\<close>

definition CODECS :: "(string \<times> codec_entry) list" where
  "CODECS =
    [(''SBC'', (''SBC'', 0x00, [0xFF, 0xFF, 0x02, 0x35])),
     (''AAC'', (''AAC'', 0x02, [0xF0, 0x01, 0x04, 0x00, 0xFF, 0xFF])),
     (''APTX'', (''aptX'', 0xFF, QUALCOMM @ [0x01, 0x00] @ [0xFF])),
     (''APTX_HD'', (''aptX-HD'', 0xFF, QUALCOMM @ [0x24, 0x00] @ [0xFF, 0x00, 0x00, 0x00, 0x00])),
     (''APTX_ADAPTIVE'', (''aptX-Adaptive'', 0xFF,
        QUALCOMM @ [0xAD, 0x00] @ [0x00, 0x00, 0x00, 0x01, 0x00, 0x00, 0x00, 0x00, 0x00, 0x00])),
     (''APTX_TWS_PLUS'', (''aptX TWS+'', 0xFF, QUALCOMM @ [0x05, 0x00] @ [0xFF])),
     (''LDAC'', (''LDAC'', 0xFF, SONY @ [0xAA, 0x00] @ [0x3C, 0x07])),
     (''LHDC_V2'', (''LHDC V2'', 0xFF, SAVITECH @ [0x32, 0x4C] @ [0x26, 0xF0, 0x00])),
     (''LHDC_V3'', (''LHDC V3'', 0xFF, SAVITECH @ [0x33, 0x4C] @ [0x3E, 0xF0, 0x00])),
     (''LHDC_V4'', (''LHDC V4'', 0xFF, SAVITECH @ [0x34, 0x4C] @ [0x4E, 0xF0, 0x00])),
     (''LHDC_V5'', (''LHDC V5'', 0xFF, SAVITECH @ [0x35, 0x4C] @ [0x5F, 0xF0, 0x00]))]"

text \<open>The catalogue of \<^verbatim>\<open>codec_tester_gui.py\<close>; \<^verbatim>\<open>bytes(10)\<close> is ten zero bytes.\<close>

definition CODECS_gui :: "(string \<times> codec_entry) list" where
  "CODECS_gui =
    [(''SBC'', (''SBC'', 0x00, [0xFF, 0xFF, 0x02, 0x35])),
     (''AAC'', (''AAC'', 0x02, [0xF0, 0x01, 0x04, 0x00, 0xFF, 0xFF])),
     (''APTX'', (''aptX'', 0xFF, QUALCOMM @ [0x01, 0x00, 0xFF])),
     (''APTX_HD'', (''aptX-HD'', 0xFF, QUALCOMM @ [0x24, 0x00, 0xFF, 0x00, 0x00, 0x00, 0x00])),
     (''APTX_ADAPTIVE'', (''aptX-Adaptive'', 0xFF, QUALCOMM @ [0xAD, 0x00] @ replicate 10 0x00)),
     (''APTX_TWS_PLUS'', (''aptX TWS+'', 0xFF, QUALCOMM @ [0x05, 0x00, 0xFF])),
     (''LDAC'', (''LDAC'', 0xFF, SONY @ [0xAA, 0x00, 0x3C, 0x07])),
     (''LHDC_V2'', (''LHDC V2'', 0xFF, SAVITECH @ [0x32, 0x4C, 0x26, 0xF0, 0x00])),
     (''LHDC_V3'', (''LHDC V3'', 0xFF, SAVITECH @ [0x48, 0x4C, 0x3E, 0xF0, 0x00])),
     (''LHDC_V4'', (''LHDC V4'', 0xFF, SAVITECH @ [0x34, 0x4C, 0x4E, 0xF0, 0x00])),
     (''LHDC_V5'', (''LHDC V5'', 0xFF, SAVITECH @ [0x35, 0x4C, 0x5F, 0xF0, 0x00]))]"

definition MANDATORY :: "string list" where
  "MANDATORY = [''SBC'', ''AAC'']"

text \<open>
  The fields of a vendor capability payload, as the catalogue's comments lay them out:
  four bytes of vendor id, two bytes of vendor codec id, then the parameter tail.
\<close>

definition vendor_id_field :: "bytes \<Rightarrow> bytes" where
  "vendor_id_field info = take 4 info"

definition codec_id_field :: "bytes \<Rightarrow> bytes" where
  "codec_id_field info = take 2 (drop 4 info)"

definition parameter_tail :: "bytes \<Rightarrow> bytes" where
  "parameter_tail info = drop 6 info"

section \<open>Selection\<close>

text \<open>
  \<^verbatim>\<open>
  def resolve(keys):
      result = list(keys)
      for m in MANDATORY:
          if m not in result:
              result.append(m)
      return result
  \<close>
  The loop over \<^verbatim>\<open>MANDATORY\<close> is \<open>resolve_loop\<close>; the membership test reads the
  list as it has grown so far.
\<close>

fun resolve_loop :: "string list \<Rightarrow> string list \<Rightarrow> string list" where
  "resolve_loop result [] = result"
| "resolve_loop result (m # ms) =
     resolve_loop (if m \<notin> set result then result @ [m] else result) ms"

definition resolve :: "string list \<Rightarrow> string list" where
  "resolve keys = resolve_loop keys MANDATORY"

text \<open>
  \<^verbatim>\<open>App._get_keys\<close> of the graphical bench: the ticked keys of
  \<^verbatim>\<open>self._codec_vars\<close> (a dictionary from key to a boolean variable, in insertion
  order), then the same loop.
\<close>

definition get_keys :: "(string \<times> bool) list \<Rightarrow> string list" where
  "get_keys codec_vars = resolve_loop (map fst (filter snd codec_vars)) MANDATORY"

section \<open>Exceptions\<close>

text \<open>
  The Python exceptions that the modelled code can meet. An operation that can raise
  returns \<open>py_error + 'a\<close>, with \<open>Inl\<close> for the exception.
\<close>

datatype py_error =
    IndexError
  | KeyError string
  | ValueError string
  | ZeroDivisionError
  | OverflowError
  | StackError

section \<open>Codec info parser\<close>

text \<open>
  \<^verbatim>\<open>parse_codec_info(codec_key, info_bytes)\<close> of the graphical bench fills a
  dictionary \<^verbatim>\<open>r\<close> with up to three integer entries and returns it; the whole body
  sits in \<^verbatim>\<open>try: ... except Exception: pass\<close>. The dictionary is a map from the
  entry's name to its value. Indexing a \<^verbatim>\<open>bytes\<close> value gives an integer in
  \<open>0..255\<close>, or raises \<^verbatim>\<open>IndexError\<close> out of range.
\<close>

type_synonym fields = "string \<rightharpoonup> int"

definition py_index :: "bytes \<Rightarrow> nat \<Rightarrow> py_error + int" where
  "py_index b i = (if i < length b then Inr (uint (b ! i)) else Inl IndexError)"

text \<open>
  \<^verbatim>\<open>
  for mask, hz in (...):
      if v & mask:
          r['sample_rate'] = hz; break
  \<close>
\<close>

fun scan_masks :: "(int \<times> int) list \<Rightarrow> int \<Rightarrow> fields \<Rightarrow> fields" where
  "scan_masks [] v r = r"
| "scan_masks ((msk, hz) # rest) v r =
     (if v AND msk \<noteq> 0 then r(''sample_rate'' \<mapsto> hz) else scan_masks rest v r)"

text \<open>
  The body of the \<^verbatim>\<open>try\<close>: the dictionary as it stands when the body is left, and
  the exception that left it, if any. Each index expression of the source is a
  \<open>py_index\<close> here, so that an out-of-range read is a branch of the model.
\<close>

definition parse_body :: "string \<Rightarrow> bytes \<Rightarrow> fields \<times> py_error option" where
  "parse_body codec_key b =
    (if codec_key = ''SBC'' \<and> length b \<ge> 4 then
       (case py_index b 0 of
          Inl e \<Rightarrow> (Map.empty, Some e)
        | Inr b0 \<Rightarrow>
            (((scan_masks [(0x80, 16000), (0x40, 32000), (0x20, 44100), (0x10, 48000)] b0 Map.empty)
                (''bit_depth'' \<mapsto> 16))(''max_kbps'' \<mapsto> 320), None))
     else if codec_key = ''AAC'' \<and> length b \<ge> 2 then
       (case py_index b 0 of
          Inl e \<Rightarrow> (Map.empty, Some e)
        | Inr b0 \<Rightarrow>
            (case py_index b 1 of
               Inl e \<Rightarrow> (Map.empty, Some e)
             | Inr b1 \<Rightarrow>
                 (let sr_bits = push_bit 8 (b0 AND 0x0F) OR b1 in
                  (((scan_masks [(0x800, 8000), (0x400, 11025), (0x200, 12000),
                                 (0x100, 16000), (0x080, 22050), (0x040, 24000),
                                 (0x020, 32000), (0x010, 44100), (0x008, 48000),
                                 (0x002, 88200), (0x001, 96000)] sr_bits Map.empty)
                      (''bit_depth'' \<mapsto> 16))(''max_kbps'' \<mapsto> 320), None))))
     else if codec_key = ''LDAC'' \<and> length b \<ge> 8 then
       (case py_index b 6 of
          Inl e \<Rightarrow> (Map.empty, Some e)
        | Inr b6 \<Rightarrow>
            (let r = (scan_masks [(0x20, 44100), (0x10, 48000), (0x04, 88200), (0x02, 96000)]
                        b6 Map.empty)(''bit_depth'' \<mapsto> 24) in
             (case py_index b 7 of
                Inl e \<Rightarrow> (r, Some e)
              | Inr b7 \<Rightarrow>
                  (let q = b7 AND 0x07 in
                   (r(''max_kbps'' \<mapsto>
                       (case map_of [(0, 990), (1, 660), (2, 330)] q of
                          Some kbps \<Rightarrow> kbps | None \<Rightarrow> 990)), None)))))
     else if prefix ''LHDC'' codec_key \<and> length b \<ge> 7 then
       (case py_index b 6 of
          Inl e \<Rightarrow> (Map.empty, Some e)
        | Inr cap0 \<Rightarrow>
            (((scan_masks [(0x08, 192000), (0x04, 96000), (0x02, 48000), (0x01, 44100)]
                 cap0 Map.empty)
                (''bit_depth'' \<mapsto> 24))(''max_kbps'' \<mapsto> 900), None))
     else if prefix ''APTX'' codec_key \<and> length b \<ge> 7 then
       (case py_index b 6 of
          Inl e \<Rightarrow> (Map.empty, Some e)
        | Inr sr_byte \<Rightarrow>
            (((scan_masks [(0x80, 44100), (0x40, 48000)] sr_byte Map.empty)
                (''bit_depth'' \<mapsto> (if sublist ''HD'' codec_key then 24 else 16)))
                (''max_kbps'' \<mapsto> (if sublist ''HD'' codec_key then 576 else 352)), None))
     else (Map.empty, None))"

text \<open>
  \<^verbatim>\<open>except Exception: pass\<close>, then \<^verbatim>\<open>return r\<close>: whatever left the body, the
  function returns the dictionary. \<open>parse_raises\<close> says whether the function itself
  raises: never, by its construction, but what the handler caught is kept observable
  in \<open>parse_body\<close>.
\<close>

definition parse_codec_info :: "string \<Rightarrow> bytes \<Rightarrow> fields" where
  "parse_codec_info codec_key info_bytes = fst (parse_body codec_key info_bytes)"

section \<open>Vendor codec patch\<close>

text \<open>
  The command-line bench replaces the external stack's
  \<^verbatim>\<open>VendorMediaCodecInformation.check_configuration\<close> by \<^verbatim>\<open>_check\<close>. The receiver
  is the advertised vendor codec information (an object with \<^verbatim>\<open>vendor_id\<close>,
  \<^verbatim>\<open>codec_id\<close> and the remaining parameter bytes); the argument is whatever object
  the stack decoded from the peer's proposal, which may or may not have a
  \<^verbatim>\<open>vendor_id\<close> attribute. Returning stands for acceptance, raising for rejection.
\<close>

record vendor_information =
  vendor_id :: int
  codec_id :: int
  vendor_value :: bytes

datatype configuration =
    VendorConfig vendor_information
  | OtherConfig bytes

definition check :: "vendor_information \<Rightarrow> configuration \<Rightarrow> py_error + unit" where
  "check self config =
    (case config of
       OtherConfig _ \<Rightarrow> Inr ()
     | VendorConfig c \<Rightarrow>
         if vendor_id c \<noteq> vendor_id self then Inl (ValueError ''vendor_id mismatch'')
         else if codec_id c \<noteq> codec_id self then Inl (ValueError ''codec_id mismatch'')
         else Inr ())"

text \<open>
  The graphical bench replaces \<^verbatim>\<open>MediaCodecCapabilities.check_configuration\<close> by
  \<^verbatim>\<open>_permissive_check\<close>, which returns at once for media codec type \<open>0xFF\<close> and
  otherwise calls the stack's original check, a parameter here.
\<close>

record media_codec_capabilities =
  media_codec_type :: nat
  media_codec_information :: bytes

definition permissive_check ::
  "(media_codec_capabilities \<Rightarrow> 'c \<Rightarrow> py_error + unit) \<Rightarrow>
   media_codec_capabilities \<Rightarrow> 'c \<Rightarrow> py_error + unit" where
  "permissive_check orig_check self configuration =
    (if media_codec_type self = 0xFF then Inr () else orig_check self configuration)"

definition accepted :: "py_error + unit \<Rightarrow> bool" where
  "accepted res = (case res of Inr _ \<Rightarrow> True | Inl _ \<Rightarrow> False)"

section \<open>Events of the graphical bench\<close>

text \<open>
  \<^verbatim>\<open>BenchWorker._emit\<close> puts a dictionary \<^verbatim>\<open>{'type': ..., ...}\<close> on a queue that
  the window polls. An event is a constructor carrying the dictionary's other entries.
  A log line is formatted from a fixed template and a few values; \<open>log_text\<close> keeps
  the template's identity and the values. \<^verbatim>\<open>STREAM_OPENED\<close> carries codec name, key,
  parsed fields and the configuration bytes (the source sends them as a hex string).
  The \<^verbatim>\<open>kbps\<close> of a \<^verbatim>\<open>BITRATE\<close> event is a Python float: a double, given
  here by its exact rational value.
\<close>

datatype level = Normal | Info | Success | Warning | Error

datatype log_text =
    AvdtpConnected "string list"
  | EndpointAdded string nat
  | EndpointSkipped string
  | NoBackend
  | LiveOnlySBC
  | AudioPlaying
  | SavingBackup
  | AudioStartFailed
  | AudioPipeError

datatype event =
    LOG log_text level
  | DISCOVERABLE
  | CONNECTED
  | STREAM_OPENED string string fields bytes
  | STREAM_CLOSED string
  | BITRATE rat
  | DONE

section \<open>Audio player\<close>

text \<open>
  \<^verbatim>\<open>AudioPlayer\<close> holds a player process (\<^verbatim>\<open>ffplay\<close> reading a pipe), a flag and
  a dump file. The process and the file belong to the operating system; what the
  code can observe of them is how they answer its calls, and only the answers that
  change the code's control flow are modelled: whether \<^verbatim>\<open>poll()\<close> reports that
  the process has exited, whether writing to its pipe raises, whether closing the pipe
  raises, and whether writing to the dump file raises. The calls that complete are
  appended to a trace of effects, in order. \<^verbatim>\<open>terminate()\<close> and the dump file's
  \<^verbatim>\<open>close()\<close> are recorded when they are called: whether they raise is not
  modelled, since \<^verbatim>\<open>stop\<close> swallows the exception and the assignments after them
  are the same either way.
\<close>

record process =
  exited :: bool
  write_raises :: bool
  close_raises :: bool

record dumpfile =
  dump_write_raises :: bool

datatype effect =
    Popen nat int
  | OpenDump
  | PipeWrite bytes
  | PipeFlush
  | DumpWrite bytes
  | StdinClose
  | Terminate
  | DumpClose

record audio_player =
  backend :: "string option"
  proc :: "process option"
  active :: bool
  dump_file :: "dumpfile option"

text \<open>
  What \<^verbatim>\<open>subprocess.Popen\<close> and \<^verbatim>\<open>open\<close> give when the player starts:
  \<open>None\<close> when the call raises.
\<close>

record os_env =
  popen_result :: "process option"
  open_result :: "dumpfile option"

text \<open>
  The state of one \<^verbatim>\<open>BenchWorker\<close> run: the event queue \<open>q\<close>, the byte counter,
  the player, the playback switch, the latch \<^verbatim>\<open>fired\<close> of the connection handler,
  the endpoints whose \<^verbatim>\<open>open\<close> and \<^verbatim>\<open>close\<close> callbacks are wired (stream endpoint
  id, key, name), the keys of the endpoints on which an \<^verbatim>\<open>rtp_packet\<close> listener has
  been registered (once per registration), and the trace of effects.
\<close>

record bench =
  q :: "event list"
  bytes_recv :: int
  audio :: audio_player
  audio_enabled :: bool
  fired :: bool
  wired :: "(nat \<times> string \<times> string) list"
  rtp_listeners :: "string list"
  io :: "effect list"

definition emit :: "event \<Rightarrow> bench \<Rightarrow> bench" where
  "emit ev w = w\<lparr>q := q w @ [ev]\<rparr>"

definition emit_log :: "log_text \<Rightarrow> level \<Rightarrow> bench \<Rightarrow> bench" where
  "emit_log msg lvl w = emit (LOG msg lvl) w"

text \<open>
  \<^verbatim>\<open>BenchWorker.__init__\<close>, then \<^verbatim>\<open>BenchWorker.start(codec_keys, transport, audio)\<close>
  setting the playback switch. \<open>which_ffplay\<close> is the answer of
  \<^verbatim>\<open>shutil.which('ffplay')\<close>.
\<close>

definition init_bench :: "bool \<Rightarrow> bool \<Rightarrow> bench" where
  "init_bench which_ffplay audio_on =
    \<lparr>q = [], bytes_recv = 0,
     audio = \<lparr>backend = (if which_ffplay then Some ''ffplay'' else None),
              proc = None, active = False, dump_file = None\<rparr>,
     audio_enabled = audio_on, fired = False, wired = [], rtp_listeners = [], io = []\<rparr>"

text \<open>\<^verbatim>\<open>AudioPlayer.start(sample_rate, channels, codec_key)\<close>.\<close>

definition AudioPlayer_start :: "os_env \<Rightarrow> int \<Rightarrow> nat \<Rightarrow> string \<Rightarrow> bench \<Rightarrow> bench" where
  "AudioPlayer_start env sample_rate channels codec_key w =
    (case backend (audio w) of
       None \<Rightarrow> emit_log NoBackend Warning w
     | Some _ \<Rightarrow>
         if codec_key \<noteq> ''SBC'' then emit_log LiveOnlySBC Warning w
         else
           (case popen_result env of
              None \<Rightarrow> emit_log AudioStartFailed Error w
            | Some p \<Rightarrow>
                (let w1 = w\<lparr>audio := (audio w)\<lparr>proc := Some p, active := True\<rparr>,
                             io := io w @ [Popen channels sample_rate]\<rparr>
                 in case open_result env of
                      None \<Rightarrow> emit_log AudioStartFailed Error w1
                    | Some f \<Rightarrow>
                        emit_log SavingBackup Info
                          (emit_log AudioPlaying Success
                             (w1\<lparr>audio := (audio w1)\<lparr>dump_file := Some f\<rparr>,
                                 io := io w1 @ [OpenDump]\<rparr>)))))"

text \<open>
  \<^verbatim>\<open>
  def write(self, data):
      if self.active and self._proc and self._proc.poll() is None:
          try:
              self._proc.stdin.write(data)
              self._proc.stdin.flush()
              if self.dump_file:
                  self.dump_file.write(data)
          except Exception as e:
              self._log(..., 'error')
              self.active = False
  \<close>
\<close>

definition pipe_error :: "bench \<Rightarrow> bench" where
  "pipe_error w =
    (let w1 = emit_log AudioPipeError Error w in w1\<lparr>audio := (audio w1)\<lparr>active := False\<rparr>\<rparr>)"

definition AudioPlayer_write :: "bytes \<Rightarrow> bench \<Rightarrow> bench" where
  "AudioPlayer_write data w =
    (case proc (audio w) of
       None \<Rightarrow> w
     | Some p \<Rightarrow>
         if active (audio w) \<and> \<not> exited p then
           (if write_raises p then pipe_error w
            else
              (let w1 = w\<lparr>io := io w @ [PipeWrite data, PipeFlush]\<rparr>
               in case dump_file (audio w1) of
                    None \<Rightarrow> w1
                  | Some f \<Rightarrow>
                      if dump_write_raises f then pipe_error w1
                      else w1\<lparr>io := io w1 @ [DumpWrite data]\<rparr>))
         else w)"


section \<open>Stream callbacks of the graphical bench\<close>

text \<open>
  \<^verbatim>\<open>
  def _on_rtp(pkt):
      try:
          payload = getattr(pkt, 'payload', bytes(pkt))
          if k == 'SBC' and len(payload) > 1:
              self._audio.write(payload[1:])
          self.bytes_recv += len(payload)
      except Exception:
          pass
  \<close>
  The packet is given by its payload. \<^verbatim>\<open>AudioPlayer.write\<close> handles its own
  exceptions, so nothing in the body raises.
\<close>

definition on_rtp :: "string \<Rightarrow> bytes \<Rightarrow> bench \<Rightarrow> bench" where
  "on_rtp k payload w =
    (let w1 = (if k = ''SBC'' \<and> length payload > 1
               then AudioPlayer_write (drop 1 payload) w else w)
     in w1\<lparr>bytes_recv := bytes_recv w1 + int (length payload)\<rparr>)"

text \<open>
  \<^verbatim>\<open>_on_open(k, n, endpoint)\<close>: \<open>cfg\<close> is the \<^verbatim>\<open>media_codec_information\<close> found on
  the endpoint's configuration object, if there is one. The listener \<^verbatim>\<open>_on_rtp\<close> is
  defined and registered inside \<^verbatim>\<open>if self._audio_enabled:\<close>.
\<close>

definition on_open :: "os_env \<Rightarrow> string \<Rightarrow> string \<Rightarrow> bytes option \<Rightarrow> bench \<Rightarrow> bench" where
  "on_open env k n cfg w =
    (let cfg_bytes = (case cfg of None \<Rightarrow> [] | Some bs \<Rightarrow> bs);
         codec_info = parse_codec_info k cfg_bytes;
         w1 = emit (STREAM_OPENED n k codec_info cfg_bytes) w
     in if audio_enabled w1 then
          (let sr = (case codec_info ''sample_rate'' of Some hz \<Rightarrow> hz | None \<Rightarrow> 44100);
               w2 = AudioPlayer_start env sr 2 k w1
           in w2\<lparr>rtp_listeners := rtp_listeners w2 @ [k]\<rparr>)
        else w1)"


text \<open>
  The stack delivering one media packet on the endpoint of key \<open>k\<close>: every listener
  registered on that endpoint is called, in registration order.
\<close>

definition deliver_rtp :: "string \<Rightarrow> bytes \<Rightarrow> bench \<Rightarrow> bench" where
  "deliver_rtp k payload w =
    fold (\<lambda>h w'. if h = k then on_rtp h payload w' else w') (rtp_listeners w) w"

section \<open>Connection handler of the graphical bench\<close>

text \<open>
  The external stack's protocol object, as far as the benches use it:
  \<^verbatim>\<open>protocol.add_sink(caps)\<close> either raises or registers a sink endpoint and returns
  it with its stream endpoint id. \<open>refuses\<close> says for which capabilities the call
  raises; the ids count up from 1.
\<close>

record protocol =
  refuses :: "media_codec_capabilities \<Rightarrow> bool"
  sinks :: "(nat \<times> media_codec_capabilities) list"

definition add_sink :: "protocol \<Rightarrow> media_codec_capabilities \<Rightarrow> py_error + (nat \<times> protocol)" where
  "add_sink p caps =
    (if refuses p caps then Inl StackError
     else (let seid = length (sinks p) + 1 in Inr (seid, p\<lparr>sinks := sinks p @ [(seid, caps)]\<rparr>)))"

text \<open>\<^verbatim>\<open>[CODECS[k][0] for k in keys]\<close>, raising \<^verbatim>\<open>KeyError\<close> at the first unknown key.\<close>

fun names_of :: "(string \<times> codec_entry) list \<Rightarrow> string list \<Rightarrow> py_error + string list" where
  "names_of cat [] = Inr []"
| "names_of cat (k # ks) =
    (case map_of cat k of
       None \<Rightarrow> Inl (KeyError k)
     | Some (name, mct, info) \<Rightarrow>
         (case names_of cat ks of Inl e \<Rightarrow> Inl e | Inr ns \<Rightarrow> Inr (name # ns)))"

text \<open>
  The loop of \<^verbatim>\<open>on_avdtp\<close> over the keys. \<^verbatim>\<open>CODECS[key]\<close> stands before the
  \<^verbatim>\<open>try\<close>; building the capabilities, \<^verbatim>\<open>add_sink\<close>, the log line and the wiring of
  the two callbacks stand inside it, and its handler logs the key as skipped.
\<close>

fun register_loop ::
  "string list \<Rightarrow> protocol \<Rightarrow> bench \<Rightarrow> py_error option \<times> protocol \<times> bench" where
  "register_loop [] p w = (None, p, w)"
| "register_loop (key # keys) p w =
    (case map_of CODECS_gui key of
       None \<Rightarrow> (Some (KeyError key), p, w)
     | Some (name, mct, info) \<Rightarrow>
         (case add_sink p \<lparr>media_codec_type = mct, media_codec_information = info\<rparr> of
            Inl exc \<Rightarrow> register_loop keys p (emit_log (EndpointSkipped name) Warning w)
          | Inr (seid, p') \<Rightarrow>
              register_loop keys p'
                ((emit_log (EndpointAdded name seid) Normal w)
                   \<lparr>wired := wired w @ [(seid, key, name)]\<rparr>)))"

text \<open>
  \<^verbatim>\<open>
  fired = {'v': False}
  def on_avdtp(protocol):
      if fired['v']:
          return
      fired['v'] = True
      names = [CODECS[k][0] for k in codec_keys]
      self._emit_log(...)
      for key in codec_keys: ...
      self._emit('CONNECTED')
  \<close>
  The result is the exception that left the handler, if any, with the protocol object
  and the state as the handler left them.
\<close>

definition on_avdtp ::
  "string list \<Rightarrow> protocol \<Rightarrow> bench \<Rightarrow> py_error option \<times> protocol \<times> bench" where
  "on_avdtp codec_keys p w =
    (if fired w then (None, p, w)
     else
       (let w1 = w\<lparr>fired := True\<rparr>
        in case names_of CODECS_gui codec_keys of
             Inl e \<Rightarrow> (Some e, p, w1)
           | Inr names \<Rightarrow>
               (case register_loop codec_keys p (emit_log (AvdtpConnected names) Normal w1) of
                  (Some e, p', w') \<Rightarrow> (Some e, p', w')
                | (None, p', w') \<Rightarrow> (None, p', emit CONNECTED w'))))"

text \<open>
  The stack raising one connection notification after another, each with its own
  protocol object: the handler is called on each, in order.
\<close>

fun connections :: "string list \<Rightarrow> protocol list \<Rightarrow> bench \<Rightarrow> protocol list \<times> bench" where
  "connections codec_keys [] w = ([], w)"
| "connections codec_keys (p # ps) w =
    (case on_avdtp codec_keys p w of
       (exc, p', w') \<Rightarrow>
         (case connections codec_keys ps w' of (ps', w'') \<Rightarrow> (p' # ps', w'')))"

section \<open>True division\<close>

text \<open>
  Python's \<^verbatim>\<open>a / b\<close> on two integers gives the double nearest to the quotient,
  ties going to the even significand; it raises \<^verbatim>\<open>ZeroDivisionError\<close> when
  \<^verbatim>\<open>b\<close> is zero and \<^verbatim>\<open>OverflowError\<close> when the rounded quotient is beyond the
  largest double. A double has a significand of 53 bits; the least exponent of a
  normal double is \<open>-1022\<close>, and below it the spacing of the doubles stays
  \<open>2 ^ -1074\<close>. \<open>floor_log2 x\<close> is the exponent of a positive \<open>x\<close>, from the bit
  length of an integer as \<^verbatim>\<open>int.bit_length\<close> gives it.
\<close>

definition round_half_even :: "rat \<Rightarrow> int" where
  "round_half_even x =
    (let f = \<lfloor>x\<rfloor>; r = x - of_int f
     in if r < 1 / 2 then f else if 1 / 2 < r then f + 1 else if even f then f else f + 1)"

definition floor_log2 :: "rat \<Rightarrow> int" where
  "floor_log2 x = (if 1 \<le> x then bitlen \<lfloor>x\<rfloor> - 1 else - bitlen (\<lceil>1 / x\<rceil> - 1))"

definition round_to_double :: "rat \<Rightarrow> rat" where
  "round_to_double x =
    (if x = 0 then 0
     else (let e = max (floor_log2 \<bar>x\<bar>) (- 1022); ulp = power_int 2 (e - 52)
           in sgn x * of_int (round_half_even (\<bar>x\<bar> / ulp)) * ulp))"

definition py_truediv :: "int \<Rightarrow> int \<Rightarrow> py_error + rat" where
  "py_truediv a b =
    (if b = 0 then Inl ZeroDivisionError
     else (let r = round_to_double (of_int a / of_int b)
           in if 2 ^ 1024 \<le> \<bar>r\<bar> then Inl OverflowError else Inr r))"

section \<open>Bitrate sampler\<close>

text \<open>
  \<^verbatim>\<open>
  prev = 0
  while not self._stop_event.is_set():
      await asyncio.sleep(1.0)
      delta = self.bytes_recv - prev
      prev = self.bytes_recv
      if delta:
          self._emit('BITRATE', kbps=delta * 8 / 1000)
  \<close>
  One pass of the loop body after the sleep is \<open>bitrate_tick\<close>: the exception that
  the division raised, if any, the new \<^verbatim>\<open>prev\<close> and the state. The loop runs for as
  many intervals as pass before the stop event is set; what happens during each sleep
  is the list of packets delivered in it. An exception ends the loop.
\<close>

definition bitrate_tick :: "int \<Rightarrow> bench \<Rightarrow> py_error option \<times> int \<times> bench" where
  "bitrate_tick prev w =
    (let delta = bytes_recv w - prev; prev' = bytes_recv w
     in if delta \<noteq> 0 then
          (case py_truediv (delta * 8) 1000 of
             Inl e \<Rightarrow> (Some e, prev', w)
           | Inr kbps \<Rightarrow> (None, prev', emit (BITRATE kbps) w))
        else (None, prev', w))"

fun bitrate_loop ::
  "int \<Rightarrow> (string \<times> bytes) list list \<Rightarrow> bench \<Rightarrow> py_error option \<times> int \<times> bench" where
  "bitrate_loop prev [] w = (None, prev, w)"
| "bitrate_loop prev (interval # rest) w =
    (case bitrate_tick prev (fold (\<lambda>(k, payload). deliver_rtp k payload) interval w) of
       (Some e, prev', w') \<Rightarrow> (Some e, prev', w')
     | (None, prev', w') \<Rightarrow> bitrate_loop prev' rest w')"

section \<open>Connection handler of the command-line bench\<close>

text \<open>
  \<^verbatim>\<open>make_handler(keys)\<close> creates \<^verbatim>\<open>state = {'fired': False}\<close> and returns
  \<^verbatim>\<open>on_connection\<close>. The handler prints; the printed lines are kept by template and
  values. \<^verbatim>\<open>seids\<close> collects name and stream endpoint id of each registered endpoint.
\<close>

datatype cli_line =
    Registering "string list"
  | Added string nat nat
  | Skipped string
  | Endpoints "(string \<times> nat) list" string

record handler_state =
  state_fired :: bool
  printed :: "cli_line list"
  open_listeners :: "(nat \<times> string) list"

definition make_handler :: handler_state where
  "make_handler = \<lparr>state_fired = False, printed = [], open_listeners = []\<rparr>"

definition print_line :: "cli_line \<Rightarrow> handler_state \<Rightarrow> handler_state" where
  "print_line l st = st\<lparr>printed := printed st @ [l]\<rparr>"

fun cli_register_loop ::
  "string list \<Rightarrow> protocol \<Rightarrow> (string \<times> nat) list \<Rightarrow> handler_state \<Rightarrow>
   py_error option \<times> protocol \<times> (string \<times> nat) list \<times> handler_state" where
  "cli_register_loop [] p seids st = (None, p, seids, st)"
| "cli_register_loop (key # keys) p seids st =
    (case map_of CODECS key of
       None \<Rightarrow> (Some (KeyError key), p, seids, st)
     | Some (name, mct, info) \<Rightarrow>
         (case add_sink p \<lparr>media_codec_type = mct, media_codec_information = info\<rparr> of
            Inl exc \<Rightarrow> cli_register_loop keys p seids (print_line (Skipped name) st)
          | Inr (seid, p') \<Rightarrow>
              cli_register_loop keys p' (seids @ [(name, seid)])
                (print_line (Added name (length info) seid)
                   (st\<lparr>open_listeners := open_listeners st @ [(seid, name)]\<rparr>))))"

text \<open>
  \<^verbatim>\<open>primary = next((CODECS[k][0] for k in keys if k not in MANDATORY), "SBC")\<close>
\<close>

definition primary_of :: "string list \<Rightarrow> py_error + string" where
  "primary_of keys =
    (case filter (\<lambda>k. k \<notin> set MANDATORY) keys of
       [] \<Rightarrow> Inr ''SBC''
     | k # _ \<Rightarrow> (case map_of CODECS k of
                   None \<Rightarrow> Inl (KeyError k)
                 | Some (name, mct, info) \<Rightarrow> Inr name))"

definition on_connection ::
  "string list \<Rightarrow> protocol \<Rightarrow> handler_state \<Rightarrow> py_error option \<times> protocol \<times> handler_state" where
  "on_connection keys p st =
    (if state_fired st then (None, p, st)
     else
       (let st1 = st\<lparr>state_fired := True\<rparr>
        in case names_of CODECS keys of
             Inl e \<Rightarrow> (Some e, p, st1)
           | Inr names \<Rightarrow>
               (case cli_register_loop keys p [] (print_line (Registering names) st1) of
                  (Some e, p', seids, st') \<Rightarrow> (Some e, p', st')
                | (None, p', seids, st') \<Rightarrow>
                    (case primary_of keys of
                       Inl e \<Rightarrow> (Some e, p', st')
                     | Inr primary \<Rightarrow> (None, p', print_line (Endpoints seids primary) st')))))"

fun cli_connections ::
  "string list \<Rightarrow> protocol list \<Rightarrow> handler_state \<Rightarrow> protocol list \<times> handler_state" where
  "cli_connections keys [] st = ([], st)"
| "cli_connections keys (p # ps) st =
    (case on_connection keys p st of
       (exc, p', st') \<Rightarrow>
         (case cli_connections keys ps st' of (ps', st'') \<Rightarrow> (p' # ps', st'')))"

section \<open>Observations and stand-ins for the external stack\<close>





text \<open>
  For the sampler: the \<^verbatim>\<open>kbps\<close> values of the \<^verbatim>\<open>BITRATE\<close> events of a queue, in
  order; the bytes that the listeners \<open>ls\<close> count for the packets of one interval; and
  the values that the counter has at the end of each interval, from its value \<open>c\<close>
  before the first. Then the sampler in the specification's words, as a function of
  the counter's readings: for each reading, the difference to the reading before it,
  and a sample of \<open>delta * 8 / 1000\<close> when the difference is positive.
\<close>

fun bitrates :: "event list \<Rightarrow> rat list" where
  "bitrates [] = []"
| "bitrates (BITRATE kbps # evs) = kbps # bitrates evs"
| "bitrates (ev # evs) = bitrates evs"

definition interval_bytes :: "string list \<Rightarrow> (string \<times> bytes) list \<Rightarrow> int" where
  "interval_bytes ls interval =
    sum_list (map (\<lambda>(k, payload). int (count_list ls k * length payload)) interval)"

fun readings :: "string list \<Rightarrow> int \<Rightarrow> (string \<times> bytes) list list \<Rightarrow> int list" where
  "readings ls c [] = []"
| "readings ls c (interval # rest) =
    (c + interval_bytes ls interval) # readings ls (c + interval_bytes ls interval) rest"

definition kbps_of :: "int \<Rightarrow> rat" where
  "kbps_of delta = round_to_double (of_int (delta * 8) / 1000)"

fun samples :: "int \<Rightarrow> int list \<Rightarrow> rat list" where
  "samples prev [] = []"
| "samples prev (c # cs) = (if 0 < c - prev then [kbps_of (c - prev)] else []) @ samples c cs"


definition refuse_none :: "media_codec_capabilities \<Rightarrow> bool" where
  "refuse_none caps = False"


definition reject_all_check :: "media_codec_capabilities \<Rightarrow> bytes \<Rightarrow> py_error + unit" where
  "reject_all_check self configuration = Inl (ValueError ''rejected'')"

section \<open>Selection: the mandatory codecs\<close>

lemma resolve_loop_filter:
  "distinct ms \<Longrightarrow> resolve_loop result ms = result @ filter (\<lambda>m. m \<notin> set result) ms"
  by (induction ms arbitrary: result) (auto intro: filter_cong)

text \<open>
  C3. For every requested key sequence, \<open>resolve\<close> returns the requested keys in
  their order, followed by the mandatory keys (SBC, AAC) that are not among them, in
  the order of \<open>MANDATORY\<close>. So every mandatory key is in the result, the requested
  keys are its leading part, and \<open>[APTX_HD]\<close> resolves to \<open>[APTX_HD, SBC, AAC]\<close>.
  The graphical bench's \<open>get_keys\<close> is the same function of the ticked keys.
\<close>

theorem resolve_appends_missing_mandatory:
  "resolve keys = keys @ filter (\<lambda>m. m \<notin> set keys) MANDATORY
   \<and> set MANDATORY \<subseteq> set (resolve keys)
   \<and> take (length keys) (resolve keys) = keys
   \<and> resolve [''APTX_HD''] = [''APTX_HD'', ''SBC'', ''AAC'']
   \<and> get_keys codec_vars = resolve (map fst (filter snd codec_vars))"
proof -
  have d: "distinct MANDATORY" by (simp add: MANDATORY_def)
  have r: "resolve ks = ks @ filter (\<lambda>m. m \<notin> set ks) MANDATORY" for ks
    unfolding resolve_def by (rule resolve_loop_filter [OF d])
  have s: "set MANDATORY \<subseteq> set (resolve keys)"
    by (auto simp: r)
  have e: "resolve [''APTX_HD''] = [''APTX_HD'', ''SBC'', ''AAC'']"
    by (simp add: r MANDATORY_def)
  show ?thesis using r s e by (simp add: get_keys_def resolve_def)
qed

section \<open>The two catalogues\<close>

lemma replicate_ten: "replicate 10 x = [x, x, x, x, x, x, x, x, x, x]"
  by (simp add: numeral_eq_Suc)

text \<open>
  C9, as the code has it. The two catalogues have the same keys in the same order, and
  the keys whose entries differ are exactly APTX_ADAPTIVE and LHDC_V3. For LHDC_V3 the
  entries differ in the vendor codec id field only (\<open>33 4C\<close> against \<open>48 4C\<close>); for
  APTX_ADAPTIVE they differ in one byte of the parameter tail, which is ten zero bytes
  in the graphical bench and has \<open>01\<close> at its offset 3 in the command-line bench.
\<close>

theorem catalogues_differ_in_two_entries:
  "map fst CODECS = map fst CODECS_gui
   \<and> filter (\<lambda>k. map_of CODECS k \<noteq> map_of CODECS_gui k) (map fst CODECS)
       = [''APTX_ADAPTIVE'', ''LHDC_V3'']
   \<and> map_of CODECS ''LHDC_V3''
       = Some (''LHDC V3'', 0xFF, SAVITECH @ [0x33, 0x4C] @ [0x3E, 0xF0, 0x00])
   \<and> map_of CODECS_gui ''LHDC_V3''
       = Some (''LHDC V3'', 0xFF, SAVITECH @ [0x48, 0x4C] @ [0x3E, 0xF0, 0x00])
   \<and> map_of CODECS ''APTX_ADAPTIVE''
       = Some (''aptX-Adaptive'', 0xFF, QUALCOMM @ [0xAD, 0x00] @ (replicate 10 0x00)[3 := 0x01])
   \<and> map_of CODECS_gui ''APTX_ADAPTIVE''
       = Some (''aptX-Adaptive'', 0xFF, QUALCOMM @ [0xAD, 0x00] @ replicate 10 0x00)"
  by (simp add: CODECS_def CODECS_gui_def QUALCOMM_def SONY_def SAVITECH_def replicate_ten)

text \<open>
  The claim as stated fails at APTX_ADAPTIVE: a key other than LHDC_V3 whose entries
  differ between the two catalogues.
\<close>

theorem aptx_adaptive_entries_differ:
  "map_of CODECS ''APTX_ADAPTIVE'' \<noteq> map_of CODECS_gui ''APTX_ADAPTIVE''
   \<and> ''APTX_ADAPTIVE'' \<noteq> ''LHDC_V3''"
  by (simp add: CODECS_def CODECS_gui_def QUALCOMM_def replicate_ten)

section \<open>The parser never raises\<close>

lemma parse_body_no_exception: "snd (parse_body codec_key b) = None"
  unfolding parse_body_def py_index_def
  by (simp add: Let_def)

lemma prefix_LHDC_not_APTX: "prefix ''LHDC'' k \<Longrightarrow> \<not> prefix ''APTX'' k"
  by (auto simp: prefix_def)

lemma prefix_LHDC_neq: "prefix ''LHDC'' k \<Longrightarrow> k \<noteq> ''SBC'' \<and> k \<noteq> ''AAC'' \<and> k \<noteq> ''LDAC''"
  by (auto simp: prefix_def)

lemma prefix_APTX_neq: "prefix ''APTX'' k \<Longrightarrow> k \<noteq> ''SBC'' \<and> k \<noteq> ''AAC'' \<and> k \<noteq> ''LDAC'' \<and> \<not> prefix ''LHDC'' k"
  by (auto simp: prefix_def)

text \<open>
  C8. For every codec key and every payload, empty and truncated ones included,
  nothing raises inside \<^verbatim>\<open>parse_codec_info\<close>: the body of its \<^verbatim>\<open>try\<close> is left
  without an exception, because every index it reads is below the length that its
  branch has checked. On an empty payload, and on a payload shorter than the length
  its codec's branch asks for (4 bytes for SBC, 2 for AAC, 8 for LDAC, 7 for the LHDC
  and aptX keys), the result is the empty dictionary.
\<close>

theorem parse_codec_info_never_raises:
  "snd (parse_body codec_key b) = None
   \<and> parse_codec_info codec_key [] = Map.empty
   \<and> (codec_key = ''SBC'' \<and> length b < 4 \<longrightarrow> parse_codec_info codec_key b = Map.empty)
   \<and> (codec_key = ''AAC'' \<and> length b < 2 \<longrightarrow> parse_codec_info codec_key b = Map.empty)
   \<and> (codec_key = ''LDAC'' \<and> length b < 8 \<longrightarrow> parse_codec_info codec_key b = Map.empty)
   \<and> (prefix ''LHDC'' codec_key \<and> length b < 7 \<longrightarrow> parse_codec_info codec_key b = Map.empty)
   \<and> (prefix ''APTX'' codec_key \<and> length b < 7 \<longrightarrow> parse_codec_info codec_key b = Map.empty)"
proof -
  have e: "parse_codec_info codec_key [] = Map.empty"
    by (simp add: parse_codec_info_def parse_body_def)
  have sbc: "codec_key = ''SBC'' \<and> length b < 4 \<longrightarrow> parse_codec_info codec_key b = Map.empty"
    by (simp add: parse_codec_info_def parse_body_def)
  have aac: "codec_key = ''AAC'' \<and> length b < 2 \<longrightarrow> parse_codec_info codec_key b = Map.empty"
    by (simp add: parse_codec_info_def parse_body_def)
  have ldac: "codec_key = ''LDAC'' \<and> length b < 8 \<longrightarrow> parse_codec_info codec_key b = Map.empty"
    by (simp add: parse_codec_info_def parse_body_def)
  have lhdc: "prefix ''LHDC'' codec_key \<and> length b < 7 \<longrightarrow> parse_codec_info codec_key b = Map.empty"
    using prefix_LHDC_neq [of codec_key] prefix_LHDC_not_APTX [of codec_key]
    by (simp add: parse_codec_info_def parse_body_def)
  have aptx: "prefix ''APTX'' codec_key \<and> length b < 7 \<longrightarrow> parse_codec_info codec_key b = Map.empty"
    using prefix_APTX_neq [of codec_key]
    by (simp add: parse_codec_info_def parse_body_def)
  show ?thesis using parse_body_no_exception e sbc aac ldac lhdc aptx by blast
qed

theorem parse_codec_info_never_raises_witness:
  "snd (parse_body ''LDAC'' [0x2D, 0x01, 0x00, 0x00, 0xAA, 0x00, 0x3C]) = None
   \<and> parse_codec_info ''LDAC'' [0x2D, 0x01, 0x00, 0x00, 0xAA, 0x00, 0x3C] = Map.empty
   \<and> parse_codec_info ''SBC'' [0xFF, 0xFF, 0x02] = Map.empty
   \<and> parse_codec_info ''AAC'' [0xF0] = Map.empty
   \<and> parse_codec_info ''LHDC_V3'' [0x3A, 0x05, 0x00, 0x00, 0x48, 0x4C] = Map.empty
   \<and> parse_codec_info ''APTX_HD'' [0xD0, 0x00, 0x00, 0x00, 0x24, 0x00] = Map.empty"
  using parse_codec_info_never_raises [of "''LDAC''" "[0x2D, 0x01, 0x00, 0x00, 0xAA, 0x00, 0x3C]"]
        parse_codec_info_never_raises [of "''SBC''" "[0xFF, 0xFF, 0x02]"]
        parse_codec_info_never_raises [of "''AAC''" "[0xF0]"]
        parse_codec_info_never_raises [of "''LHDC_V3''" "[0x3A, 0x05, 0x00, 0x00, 0x48, 0x4C]"]
        parse_codec_info_never_raises [of "''APTX_HD''" "[0xD0, 0x00, 0x00, 0x00, 0x24, 0x00]"]
  by simp

section \<open>Acceptance of a proposed vendor configuration\<close>

text \<open>
  C1, as the code has it. In the command-line bench, a proposed configuration that
  carries vendor fields is accepted exactly when its vendor id and its codec id equal
  the advertised ones, whatever its parameter bytes; a proposed configuration object
  without a \<^verbatim>\<open>vendor_id\<close> attribute is accepted. In the graphical bench a descriptor
  of media codec type \<open>0xFF\<close> accepts every proposed configuration, and any other
  descriptor is checked by the stack's original check.
\<close>

theorem vendor_check_policy:
  "(accepted (check adv (VendorConfig c)) \<longleftrightarrow> vendor_id c = vendor_id adv \<and> codec_id c = codec_id adv)
   \<and> check adv (VendorConfig (c\<lparr>vendor_value := tail\<rparr>)) = check adv (VendorConfig c)
   \<and> accepted (check adv (OtherConfig bs))
   \<and> (media_codec_type caps = 0xFF \<longrightarrow> accepted (permissive_check orig_check caps cfg))
   \<and> (media_codec_type caps \<noteq> 0xFF \<longrightarrow> permissive_check orig_check caps cfg = orig_check caps cfg)"
  by (simp add: accepted_def check_def permissive_check_def)

theorem vendor_check_policy_witness:
  "accepted (check \<lparr>vendor_id = 0x053A, codec_id = 0x4C33, vendor_value = [0x3E, 0xF0, 0x00]\<rparr>
      (VendorConfig \<lparr>vendor_id = 0x053A, codec_id = 0x4C33, vendor_value = [0x31, 0x80, 0x00]\<rparr>))
   \<and> \<not> accepted (check \<lparr>vendor_id = 0x053A, codec_id = 0x4C33, vendor_value = [0x3E, 0xF0, 0x00]\<rparr>
      (VendorConfig \<lparr>vendor_id = 0x053A, codec_id = 0x4C48, vendor_value = [0x3E, 0xF0, 0x00]\<rparr>))
   \<and> accepted (permissive_check reject_all_check
        \<lparr>media_codec_type = 0xFF, media_codec_information = SONY @ [0xAA, 0x00, 0x3C, 0x07]\<rparr>
        (SONY @ [0xAA, 0x00, 0x01, 0x01]))
   \<and> permissive_check reject_all_check
        \<lparr>media_codec_type = 0x00, media_codec_information = [0xFF, 0xFF, 0x02, 0x35]\<rparr>
        [0x21, 0x15, 0x02, 0x35] = Inl (ValueError ''rejected'')"
  using vendor_check_policy [of "\<lparr>vendor_id = 0x053A, codec_id = 0x4C33, vendor_value = [0x3E, 0xF0, 0x00]\<rparr>"
          "\<lparr>vendor_id = 0x053A, codec_id = 0x4C33, vendor_value = [0x31, 0x80, 0x00]\<rparr>" "[]"  "[]"
          "\<lparr>media_codec_type = 0xFF, media_codec_information = SONY @ [0xAA, 0x00, 0x3C, 0x07]\<rparr>"
          reject_all_check "SONY @ [0xAA, 0x00, 0x01, 0x01]"]
        vendor_check_policy [of "\<lparr>vendor_id = 0x053A, codec_id = 0x4C33, vendor_value = [0x3E, 0xF0, 0x00]\<rparr>"
          "\<lparr>vendor_id = 0x053A, codec_id = 0x4C48, vendor_value = [0x3E, 0xF0, 0x00]\<rparr>" "[]"  "[]"
          "\<lparr>media_codec_type = 0x00, media_codec_information = [0xFF, 0xFF, 0x02, 0x35]\<rparr>"
          reject_all_check "[0x21, 0x15, 0x02, 0x35] :: bytes"]
  by (simp add: reject_all_check_def)

text \<open>
  The claim as stated fails in the graphical bench: the advertised LHDC V3 descriptor
  accepts a proposal that carries Sony's vendor id and LDAC's codec id, even where the
  stack's original check would reject everything.
\<close>

theorem gui_accepts_foreign_vendor:
  "accepted (permissive_check reject_all_check
        \<lparr>media_codec_type = 0xFF, media_codec_information = SAVITECH @ [0x48, 0x4C, 0x3E, 0xF0, 0x00]\<rparr>
        (SONY @ [0xAA, 0x00, 0x3C, 0x07]))
   \<and> vendor_id_field (SONY @ [0xAA, 0x00, 0x3C, 0x07]) \<noteq> vendor_id_field (SAVITECH @ [0x48, 0x4C, 0x3E, 0xF0, 0x00])
   \<and> codec_id_field (SONY @ [0xAA, 0x00, 0x3C, 0x07]) \<noteq> codec_id_field (SAVITECH @ [0x48, 0x4C, 0x3E, 0xF0, 0x00])"
  by (simp add: accepted_def permissive_check_def vendor_id_field_def codec_id_field_def SONY_def SAVITECH_def)

section \<open>Closing a stream stops the player\<close>




section \<open>Counting media packets\<close>

lemma AudioPlayer_write_bytes_recv: "bytes_recv (AudioPlayer_write d w) = bytes_recv w"
  by (simp add: AudioPlayer_write_def pipe_error_def emit_log_def emit_def Let_def
           split: option.splits)

lemma on_rtp_counts: "bytes_recv (on_rtp k payload w) = bytes_recv w + int (length payload)"
  by (simp add: on_rtp_def Let_def AudioPlayer_write_bytes_recv)

text \<open>
  C2, evaluated on the code. With live playback switched off, opening an endpoint
  registers no \<^verbatim>\<open>rtp_packet\<close> listener (the listener is defined and registered inside
  \<^verbatim>\<open>if self._audio_enabled:\<close>), so a media packet delivered on the opened endpoint
  leaves the byte counter where it was.
\<close>

theorem rtp_uncounted_when_playback_disabled:
  "\<not> audio_enabled w \<Longrightarrow> rtp_listeners w = [] \<Longrightarrow>
     bytes_recv (deliver_rtp k payload (on_open env k n cfg w)) = bytes_recv w
     \<and> rtp_listeners (on_open env k n cfg w) = []"
  by (simp add: on_open_def deliver_rtp_def emit_def Let_def)

theorem rtp_uncounted_when_playback_disabled_witness:
  "\<not> audio_enabled (init_bench True False) \<and> rtp_listeners (init_bench True False) = []
   \<and> bytes_recv (deliver_rtp ''SBC'' [0x9C, 0x01, 0x02, 0x03]
        (on_open \<lparr>popen_result = Some \<lparr>exited = False, write_raises = False, close_raises = False\<rparr>,
                  open_result = Some \<lparr>dump_write_raises = False\<rparr>\<rparr>
           ''SBC'' ''SBC'' None (init_bench True False))) = 0
   \<and> length [0x9C, 0x01, 0x02, 0x03 :: byte] = 4"
proof -
  have h1: "\<not> audio_enabled (init_bench True False)" by (simp add: init_bench_def)
  have h2: "rtp_listeners (init_bench True False) = []" by (simp add: init_bench_def)
  have h3: "bytes_recv (init_bench True False) = 0" by (simp add: init_bench_def)
  show ?thesis
    using h1 h2 h3 rtp_uncounted_when_playback_disabled [OF h1 h2] by simp
qed

text \<open>
  With live playback switched on, the first opening of an endpoint registers one
  listener, whatever the codec, and each packet is then counted once; for a codec other
  than SBC starting the player changes neither the player nor the trace. Each further
  opening of the same endpoint registers one more listener, and each packet is then
  counted once per listener.
\<close>

lemma AudioPlayer_start_keeps:
  "bytes_recv (AudioPlayer_start env sr ch k w) = bytes_recv w
   \<and> rtp_listeners (AudioPlayer_start env sr ch k w) = rtp_listeners w
   \<and> audio_enabled (AudioPlayer_start env sr ch k w) = audio_enabled w"
  by (simp add: AudioPlayer_start_def emit_log_def emit_def Let_def split: option.splits)

lemma on_open_enabled:
  "audio_enabled w \<Longrightarrow>
     rtp_listeners (on_open env k n cfg w) = rtp_listeners w @ [k]
     \<and> bytes_recv (on_open env k n cfg w) = bytes_recv w
     \<and> audio_enabled (on_open env k n cfg w)"
  by (simp add: on_open_def emit_def Let_def AudioPlayer_start_keeps)

lemma rtp_counted_when_playback_enabled:
  "audio_enabled w \<Longrightarrow> rtp_listeners w = [] \<Longrightarrow>
     bytes_recv (deliver_rtp k payload (on_open env k n cfg w)) = bytes_recv w + int (length payload)"
  by (simp add: deliver_rtp_def on_open_enabled on_rtp_counts)

lemma start_is_noop_for_other_codecs:
  "k \<noteq> ''SBC'' \<Longrightarrow>
     audio (AudioPlayer_start env sr ch k w) = audio w \<and> io (AudioPlayer_start env sr ch k w) = io w"
  by (simp add: AudioPlayer_start_def emit_log_def emit_def split: option.splits)

lemma reopened_endpoint_counts_twice:
  "audio_enabled w \<Longrightarrow> rtp_listeners w = [] \<Longrightarrow>
     bytes_recv (deliver_rtp k payload (on_open env' k n cfg' (on_open env k n cfg w)))
       = bytes_recv w + 2 * int (length payload)"
  by (simp add: deliver_rtp_def on_open_enabled on_rtp_counts)

section \<open>The playback pipe and the dump file\<close>

text \<open>
  C4, evaluated on the code. \<^verbatim>\<open>AudioPlayer.write\<close> writes to the player's pipe and
  then to the dump file inside one \<^verbatim>\<open>try\<close>. When the write to the pipe raises, the
  packet is counted and the session goes on with playback disabled, but the packet is
  not appended to the dump file, and no later packet is written to either of them: the
  dump file is still held, and \<^verbatim>\<open>write\<close> does nothing once \<^verbatim>\<open>active\<close> is false.
\<close>

theorem pipe_failure_stops_backup:
  "proc (audio w) = Some p \<Longrightarrow> active (audio w) \<Longrightarrow> \<not> exited p \<Longrightarrow> write_raises p \<Longrightarrow>
   dump_file (audio w) = Some f \<Longrightarrow> 1 < length payload \<Longrightarrow>
     io (on_rtp ''SBC'' payload w) = io w
     \<and> \<not> active (audio (on_rtp ''SBC'' payload w))
     \<and> dump_file (audio (on_rtp ''SBC'' payload w)) = Some f
     \<and> bytes_recv (on_rtp ''SBC'' payload w) = bytes_recv w + int (length payload)
     \<and> io (on_rtp ''SBC'' payload' (on_rtp ''SBC'' payload w)) = io w"
  by (simp add: on_rtp_def AudioPlayer_write_def pipe_error_def emit_log_def emit_def Let_def)

theorem pipe_failure_stops_backup_witness:
  "io (on_rtp ''SBC'' [0x9C, 0x01, 0x02, 0x03]
        \<lparr>q = [], bytes_recv = 0,
         audio = \<lparr>backend = Some ''ffplay'',
                  proc = Some \<lparr>exited = False, write_raises = True, close_raises = False\<rparr>,
                  active = True, dump_file = Some \<lparr>dump_write_raises = False\<rparr>\<rparr>,
         audio_enabled = True, fired = True, wired = [(1, ''SBC'', ''SBC'')],
         rtp_listeners = [''SBC''], io = [Popen 2 44100, OpenDump]\<rparr>) = [Popen 2 44100, OpenDump]
   \<and> bytes_recv (on_rtp ''SBC'' [0x9C, 0x01, 0x02, 0x03]
        \<lparr>q = [], bytes_recv = 0,
         audio = \<lparr>backend = Some ''ffplay'',
                  proc = Some \<lparr>exited = False, write_raises = True, close_raises = False\<rparr>,
                  active = True, dump_file = Some \<lparr>dump_write_raises = False\<rparr>\<rparr>,
         audio_enabled = True, fired = True, wired = [(1, ''SBC'', ''SBC'')],
         rtp_listeners = [''SBC''], io = [Popen 2 44100, OpenDump]\<rparr>) = 4
   \<and> io (on_rtp ''SBC'' [0x9C, 0x05, 0x06, 0x07] (on_rtp ''SBC'' [0x9C, 0x01, 0x02, 0x03]
        \<lparr>q = [], bytes_recv = 0,
         audio = \<lparr>backend = Some ''ffplay'',
                  proc = Some \<lparr>exited = False, write_raises = True, close_raises = False\<rparr>,
                  active = True, dump_file = Some \<lparr>dump_write_raises = False\<rparr>\<rparr>,
         audio_enabled = True, fired = True, wired = [(1, ''SBC'', ''SBC'')],
         rtp_listeners = [''SBC''], io = [Popen 2 44100, OpenDump]\<rparr>)) = [Popen 2 44100, OpenDump]"
  using pipe_failure_stops_backup [of
        "\<lparr>q = [], bytes_recv = 0,
         audio = \<lparr>backend = Some ''ffplay'',
                  proc = Some \<lparr>exited = False, write_raises = True, close_raises = False\<rparr>,
                  active = True, dump_file = Some \<lparr>dump_write_raises = False\<rparr>\<rparr>,
         audio_enabled = True, fired = True, wired = [(1, ''SBC'', ''SBC'')],
         rtp_listeners = [''SBC''], io = [Popen 2 44100, OpenDump]\<rparr>"
        "\<lparr>exited = False, write_raises = True, close_raises = False\<rparr>"
        "\<lparr>dump_write_raises = False\<rparr>" "[0x9C, 0x01, 0x02, 0x03]" "[0x9C, 0x05, 0x06, 0x07]"]
  by simp

text \<open>
  The other direction: when the pipe takes the packet and the write to the dump file
  raises, the same handler disables playback, so later packets no longer reach the
  player. When neither raises, the packet reaches both.
\<close>

lemma dump_failure_stops_playback:
  "proc (audio w) = Some p \<Longrightarrow> active (audio w) \<Longrightarrow> \<not> exited p \<Longrightarrow> \<not> write_raises p \<Longrightarrow>
   dump_file (audio w) = Some f \<Longrightarrow> dump_write_raises f \<Longrightarrow> 1 < length payload \<Longrightarrow>
     io (on_rtp ''SBC'' payload w) = io w @ [PipeWrite (drop 1 payload), PipeFlush]
     \<and> \<not> active (audio (on_rtp ''SBC'' payload w))
     \<and> io (on_rtp ''SBC'' payload' (on_rtp ''SBC'' payload w)) = io w @ [PipeWrite (drop 1 payload), PipeFlush]"
  by (simp add: on_rtp_def AudioPlayer_write_def pipe_error_def emit_log_def emit_def Let_def)

lemma healthy_write_reaches_both:
  "proc (audio w) = Some p \<Longrightarrow> active (audio w) \<Longrightarrow> \<not> exited p \<Longrightarrow> \<not> write_raises p \<Longrightarrow>
   dump_file (audio w) = Some f \<Longrightarrow> \<not> dump_write_raises f \<Longrightarrow> 1 < length payload \<Longrightarrow>
     io (on_rtp ''SBC'' payload w)
       = io w @ [PipeWrite (drop 1 payload), PipeFlush, DumpWrite (drop 1 payload)]"
  by (simp add: on_rtp_def AudioPlayer_write_def Let_def)

section \<open>The connection handler fires once\<close>

lemma register_loop_fired: "fired (snd (snd (register_loop keys p w))) = fired w"
  by (induction keys arbitrary: p w)
     (auto simp: emit_log_def emit_def add_sink_def Let_def split: option.splits sum.splits)

lemma on_avdtp_fired: "fired (snd (snd (on_avdtp codec_keys p w)))"
proof (cases "fired w")
  case True
  then show ?thesis by (simp add: on_avdtp_def)
next
  case False
  have r: "fired (snd (snd (register_loop codec_keys p w')))" if "fired w'" for w'
    using that by (simp add: register_loop_fired)
  show ?thesis
  proof (cases "names_of CODECS_gui codec_keys")
    case (Inl e)
    with False show ?thesis by (simp add: on_avdtp_def Let_def)
  next
    case (Inr names)
    obtain e p' w' where reg:
      "register_loop codec_keys p (emit_log (AvdtpConnected names) Normal (w\<lparr>fired := True\<rparr>)) = (e, p', w')"
      by (metis prod_cases3)
    have "fired w'"
      using r [of "emit_log (AvdtpConnected names) Normal (w\<lparr>fired := True\<rparr>)"] reg
      by (simp add: emit_log_def emit_def)
    with False Inr reg show ?thesis
      by (cases e) (simp_all add: on_avdtp_def Let_def emit_def)
  qed
qed

lemma connections_fired: "fired w \<Longrightarrow> connections codec_keys ps w = (ps, w)"
  by (induction ps) (simp_all add: on_avdtp_def)

lemma cli_register_loop_fired:
  "state_fired (snd (snd (snd (cli_register_loop keys p seids st)))) = state_fired st"
  by (induction keys arbitrary: p seids st)
     (auto simp: print_line_def add_sink_def Let_def split: option.splits sum.splits)

lemma on_connection_fired: "state_fired (snd (snd (on_connection keys p st)))"
proof (cases "state_fired st")
  case True
  then show ?thesis by (simp add: on_connection_def)
next
  case False
  show ?thesis
  proof (cases "names_of CODECS keys")
    case (Inl e)
    with False show ?thesis by (simp add: on_connection_def Let_def)
  next
    case (Inr names)
    obtain e p' seids st' where reg:
      "cli_register_loop keys p [] (print_line (Registering names) (st\<lparr>state_fired := True\<rparr>)) = (e, p', seids, st')"
      by (metis prod_cases4)
    have "state_fired st'"
      using cli_register_loop_fired [of keys p "[]" "print_line (Registering names) (st\<lparr>state_fired := True\<rparr>)"] reg
      by (simp add: print_line_def)
    with False Inr reg show ?thesis
      by (cases e; cases "primary_of keys") (simp_all add: on_connection_def Let_def print_line_def)
  qed
qed

lemma cli_connections_fired: "state_fired st \<Longrightarrow> cli_connections keys ps st = (ps, st)"
  by (induction ps) (simp_all add: on_connection_def)

text \<open>
  C7. In both benches the connection handler sets its latch on its first call and does
  nothing when the latch is set. So for every sequence of connection notifications,
  whatever protocol objects they bring, only the first call can register endpoints:
  the run of the whole sequence leaves the state as the first call left it, and every
  later protocol object as it was.
\<close>

theorem connection_handler_fires_once:
  "(fired w \<longrightarrow> on_avdtp codec_keys p w = (None, p, w))
   \<and> fired (snd (snd (on_avdtp codec_keys p w)))
   \<and> connections codec_keys (p # ps) w
       = (fst (snd (on_avdtp codec_keys p w)) # ps, snd (snd (on_avdtp codec_keys p w)))
   \<and> (state_fired st \<longrightarrow> on_connection codec_keys p st = (None, p, st))
   \<and> state_fired (snd (snd (on_connection codec_keys p st)))
   \<and> cli_connections codec_keys (p # ps) st
       = (fst (snd (on_connection codec_keys p st)) # ps, snd (snd (on_connection codec_keys p st)))"
proof -
  have a: "connections codec_keys (p # ps) w
       = (fst (snd (on_avdtp codec_keys p w)) # ps, snd (snd (on_avdtp codec_keys p w)))"
    using connections_fired [OF on_avdtp_fired, of codec_keys ps codec_keys p w]
    by (cases "on_avdtp codec_keys p w") simp
  have b: "cli_connections codec_keys (p # ps) st
       = (fst (snd (on_connection codec_keys p st)) # ps, snd (snd (on_connection codec_keys p st)))"
    using cli_connections_fired [OF on_connection_fired, of codec_keys ps codec_keys p st]
    by (cases "on_connection codec_keys p st") simp
  show ?thesis
    using a b on_avdtp_fired on_connection_fired
    by (simp add: on_avdtp_def on_connection_def)
qed

theorem connection_handler_fires_once_witness:
  "fired (snd (snd (on_avdtp [''SBC'', ''AAC''] \<lparr>refuses = refuse_none, sinks = []\<rparr>
                      (init_bench True False))))
   \<and> fst (connections [''SBC'', ''AAC'']
            [\<lparr>refuses = refuse_none, sinks = []\<rparr>, \<lparr>refuses = refuse_none, sinks = []\<rparr>,
             \<lparr>refuses = refuse_none, sinks = []\<rparr>]
            (init_bench True False))
       = [\<lparr>refuses = refuse_none,
           sinks = [(1, \<lparr>media_codec_type = 0x00, media_codec_information = [0xFF, 0xFF, 0x02, 0x35]\<rparr>),
                    (2, \<lparr>media_codec_type = 0x02,
                         media_codec_information = [0xF0, 0x01, 0x04, 0x00, 0xFF, 0xFF]\<rparr>)]\<rparr>,
          \<lparr>refuses = refuse_none, sinks = []\<rparr>, \<lparr>refuses = refuse_none, sinks = []\<rparr>]
   \<and> fst (cli_connections [''SBC'', ''AAC'']
            [\<lparr>refuses = refuse_none, sinks = []\<rparr>, \<lparr>refuses = refuse_none, sinks = []\<rparr>]
            make_handler)
       = [\<lparr>refuses = refuse_none,
           sinks = [(1, \<lparr>media_codec_type = 0x00, media_codec_information = [0xFF, 0xFF, 0x02, 0x35]\<rparr>),
                    (2, \<lparr>media_codec_type = 0x02,
                         media_codec_information = [0xF0, 0x01, 0x04, 0x00, 0xFF, 0xFF]\<rparr>)]\<rparr>,
          \<lparr>refuses = refuse_none, sinks = []\<rparr>]"
proof -
  let ?p = "\<lparr>refuses = refuse_none, sinks = []\<rparr>"
  let ?ks = "[''SBC'', ''AAC'']"
  note t = connection_handler_fires_once [of "init_bench True False" ?ks ?p "[?p, ?p]" make_handler]
  note t' = connection_handler_fires_once [of "init_bench True False" ?ks ?p "[?p]" make_handler]
  have g: "fst (snd (on_avdtp ?ks ?p (init_bench True False)))
      = \<lparr>refuses = refuse_none,
           sinks = [(1, \<lparr>media_codec_type = 0x00, media_codec_information = [0xFF, 0xFF, 0x02, 0x35]\<rparr>),
                    (2, \<lparr>media_codec_type = 0x02,
                         media_codec_information = [0xF0, 0x01, 0x04, 0x00, 0xFF, 0xFF]\<rparr>)]\<rparr>"
    by (simp add: on_avdtp_def init_bench_def CODECS_gui_def add_sink_def refuse_none_def
          emit_log_def emit_def Let_def)
  have c: "fst (snd (on_connection ?ks ?p make_handler))
      = \<lparr>refuses = refuse_none,
           sinks = [(1, \<lparr>media_codec_type = 0x00, media_codec_information = [0xFF, 0xFF, 0x02, 0x35]\<rparr>),
                    (2, \<lparr>media_codec_type = 0x02,
                         media_codec_information = [0xF0, 0x01, 0x04, 0x00, 0xFF, 0xFF]\<rparr>)]\<rparr>"
    by (simp add: on_connection_def make_handler_def CODECS_def add_sink_def refuse_none_def
          print_line_def primary_of_def MANDATORY_def Let_def)
  from t have t1: "fired (snd (snd (on_avdtp ?ks ?p (init_bench True False))))" by blast
  from t have t2: "connections ?ks (?p # [?p, ?p]) (init_bench True False)
       = (fst (snd (on_avdtp ?ks ?p (init_bench True False))) # [?p, ?p],
          snd (snd (on_avdtp ?ks ?p (init_bench True False))))" by blast
  from t' have t3: "cli_connections ?ks (?p # [?p]) make_handler
       = (fst (snd (on_connection ?ks ?p make_handler)) # [?p],
          snd (snd (on_connection ?ks ?p make_handler)))" by blast
  show ?thesis
    unfolding t2 t3 using t1 g c by simp
qed

section \<open>True division stays in range\<close>

text \<open>
  The model of \<^verbatim>\<open>a / b\<close> on some quotients: a third and a tenth are rounded to the
  doubles that Python prints as \<^verbatim>\<open>0.3333333333333333\<close> and \<^verbatim>\<open>0.1\<close>.
\<close>

lemma py_truediv_third: "py_truediv 1 3 = Inr (6004799503160661 / 18014398509481984)"
  by code_simp

lemma py_truediv_tenth: "py_truediv 1 10 = Inr (3602879701896397 / 36028797018963968)"
  by code_simp

text \<open>
  A positive quotient below \<open>2 ^ 1000\<close> is rounded to a double below \<open>2 ^ 1024\<close>:
  rounding adds at most one unit in the last place, which is at most the quotient or 1.
\<close>

lemma round_half_even_le: "of_int (round_half_even y) \<le> y + 1"
proof -
  have f0: "rat_of_int \<lfloor>y\<rfloor> \<le> y + 1"
    using of_int_floor_le [of y] by linarith
  have f1: "rat_of_int (\<lfloor>y\<rfloor> + 1) \<le> y + 1"
    using of_int_floor_le [of y] by simp
  have "round_half_even y = \<lfloor>y\<rfloor> \<or> round_half_even y = \<lfloor>y\<rfloor> + 1"
    by (simp add: round_half_even_def Let_def)
  then show ?thesis
  proof
    assume "round_half_even y = \<lfloor>y\<rfloor>"
    then show ?thesis by (simp only: f0)
  next
    assume "round_half_even y = \<lfloor>y\<rfloor> + 1"
    then show ?thesis by (simp only: f1)
  qed
qed

lemma round_half_even_nonneg: "0 \<le> y \<Longrightarrow> 0 \<le> round_half_even y"
  by (auto simp: round_half_even_def Let_def)

lemma ulp_le:
  fixes x :: rat
  assumes "0 < x"
  shows "power_int 2 (max (floor_log2 x) (- 1022) - 52) \<le> max x 1"
proof (cases "1 \<le> x")
  case True
  then have fl: "0 < \<lfloor>x\<rfloor>" by simp
  let ?e = "bitlen \<lfloor>x\<rfloor> - 1"
  from bitlen_bounds [OF fl] have b: "2 ^ nat ?e \<le> \<lfloor>x\<rfloor>" by simp
  have e0: "0 \<le> ?e" using fl by (simp add: bitlen_alt_def)
  have "power_int (2::rat) (max ?e (- 1022) - 52) \<le> power_int 2 ?e"
    using e0 by (intro power_int_increasing) auto
  also have "\<dots> = 2 ^ nat ?e" using e0 by (simp add: power_int_def)
  also have "\<dots> = of_int (2 ^ nat ?e)" by simp
  also have "\<dots> \<le> of_int \<lfloor>x\<rfloor>" using b by (simp only: of_int_le_iff)
  also have "\<dots> \<le> x" by simp
  finally show ?thesis using True by (simp add: floor_log2_def)
next
  case False
  let ?e = "- bitlen (\<lceil>1 / x\<rceil> - 1)"
  have e0: "?e \<le> 0" using bitlen_nonneg [of "\<lceil>1 / x\<rceil> - 1"] by simp
  have "power_int (2::rat) (max ?e (- 1022) - 52) \<le> power_int 2 0"
    using e0 by (intro power_int_increasing) auto
  then show ?thesis using False by (simp add: floor_log2_def)
qed

lemma round_to_double_bound:
  assumes "0 < x" and "x < 2 ^ 1000"
  shows "0 \<le> round_to_double x \<and> round_to_double x < 2 ^ 1024"
proof -
  let ?ulp = "power_int (2::rat) (max (floor_log2 x) (- 1022) - 52)"
  let ?m = "round_half_even (x / ?ulp)"
  have up: "0 < ?ulp" by simp
  have r: "round_to_double x = of_int ?m * ?ulp"
    using assms(1) by (simp add: round_to_double_def Let_def)
  have "0 \<le> x / ?ulp" using assms(1) up by simp
  then have m0: "0 \<le> ?m" by (rule round_half_even_nonneg)
  have "of_int ?m * ?ulp \<le> (x / ?ulp + 1) * ?ulp"
    using round_half_even_le [of "x / ?ulp"] up by (intro mult_right_mono) auto
  also have "\<dots> = x + ?ulp" using up by (simp add: field_simps)
  also have "\<dots> \<le> x + max x 1" using ulp_le [OF assms(1)] by simp
  also have "\<dots> < 2 ^ 1000 + 2 ^ 1000" using assms(2) by (intro add_strict_mono) auto
  also have "\<dots> \<le> (2::rat) ^ 1024" by simp
  finally have "of_int ?m * ?ulp < 2 ^ 1024" .
  moreover have "0 \<le> of_int ?m * ?ulp" using m0 up by simp
  ultimately show ?thesis by (simp only: r)
qed

lemma py_truediv_in_range:
  assumes "0 < a" and "a < 2 ^ 1000" and "1 \<le> b"
  shows "py_truediv a b = Inr (round_to_double (of_int a / of_int b))"
proof -
  let ?x = "(of_int a / of_int b) :: rat"
  have x0: "0 < ?x" using assms by simp
  have "?x \<le> of_int a" using assms by (simp add: field_simps mult_le_cancel_left1)
  also have "\<dots> < 2 ^ 1000" using assms(2) by (metis of_int_less_iff of_int_numeral of_int_power)
  finally have "?x < 2 ^ 1000" .
  from round_to_double_bound [OF x0 this] have "\<bar>round_to_double ?x\<bar> < 2 ^ 1024" by simp
  then show ?thesis using assms(3) by (simp add: py_truediv_def Let_def)
qed

section \<open>The bitrate sampler\<close>

lemma kbps_of_in_range:
  assumes "0 < delta" and "delta < 2 ^ 1000"
  shows "py_truediv (delta * 8) 1000 = Inr (kbps_of delta)"
proof -
  let ?x = "(of_int (delta * 8) / 1000) :: rat"
  have x0: "0 < ?x" using assms(1) by simp
  have "?x \<le> of_int delta" using assms(1) by simp
  also have "\<dots> < 2 ^ 1000"
    using assms(2) by (metis of_int_less_iff of_int_numeral of_int_power)
  finally have "?x < 2 ^ 1000" .
  from round_to_double_bound [OF x0 this] have "\<bar>round_to_double ?x\<bar> < 2 ^ 1024" by simp
  then show ?thesis by (simp add: py_truediv_def kbps_of_def Let_def)
qed

lemma bitrate_tick_silent:
  "bytes_recv w - prev = 0 \<Longrightarrow> bitrate_tick prev w = (None, bytes_recv w, w)"
  by (simp add: bitrate_tick_def Let_def)

lemma bitrate_tick_sample:
  "0 < bytes_recv w - prev \<Longrightarrow> bytes_recv w - prev < 2 ^ 1000 \<Longrightarrow>
     bitrate_tick prev w = (None, bytes_recv w, emit (BITRATE (kbps_of (bytes_recv w - prev))) w)"
  using kbps_of_in_range [of "bytes_recv w - prev"] by (simp add: bitrate_tick_def Let_def)

lemma AudioPlayer_write_keeps:
  "rtp_listeners (AudioPlayer_write d w) = rtp_listeners w
   \<and> bitrates (q (AudioPlayer_write d w)) = bitrates (q w)"
proof -
  have b: "bitrates (xs @ [LOG t l]) = bitrates xs" for xs t l
    by (induction xs rule: bitrates.induct) simp_all
  show ?thesis
    by (simp add: AudioPlayer_write_def pipe_error_def emit_log_def emit_def Let_def b
          split: option.splits)
qed

lemma on_rtp_keeps:
  "rtp_listeners (on_rtp k payload w) = rtp_listeners w
   \<and> bitrates (q (on_rtp k payload w)) = bitrates (q w)"
  by (simp add: on_rtp_def Let_def AudioPlayer_write_keeps)

lemma listeners_fold:
  "bytes_recv (fold (\<lambda>h w'. if h = k then on_rtp h payload w' else w') hs w)
     = bytes_recv w + int (count_list hs k * length payload)
   \<and> rtp_listeners (fold (\<lambda>h w'. if h = k then on_rtp h payload w' else w') hs w)
     = rtp_listeners w
   \<and> bitrates (q (fold (\<lambda>h w'. if h = k then on_rtp h payload w' else w') hs w))
     = bitrates (q w)"
  by (induction hs arbitrary: w) (simp_all add: on_rtp_counts on_rtp_keeps algebra_simps)

lemma deliver_rtp_effect:
  "bytes_recv (deliver_rtp k payload w)
     = bytes_recv w + int (count_list (rtp_listeners w) k * length payload)
   \<and> rtp_listeners (deliver_rtp k payload w) = rtp_listeners w
   \<and> bitrates (q (deliver_rtp k payload w)) = bitrates (q w)"
  unfolding deliver_rtp_def by (rule listeners_fold)

lemma interval_effect:
  "bytes_recv (fold (\<lambda>(k, payload). deliver_rtp k payload) interval w)
     = bytes_recv w + interval_bytes (rtp_listeners w) interval
   \<and> rtp_listeners (fold (\<lambda>(k, payload). deliver_rtp k payload) interval w) = rtp_listeners w
   \<and> bitrates (q (fold (\<lambda>(k, payload). deliver_rtp k payload) interval w)) = bitrates (q w)"
proof (induction interval arbitrary: w)
  case Nil
  then show ?case by (simp add: interval_bytes_def)
next
  case (Cons a interval)
  obtain k payload where a: "a = (k, payload)" by (cases a)
  show ?case
    using Cons [of "deliver_rtp k payload w"] deliver_rtp_effect [of k payload w]
    by (simp add: a interval_bytes_def)
qed

lemma interval_bytes_nonneg: "0 \<le> interval_bytes ls interval"
  by (auto simp: interval_bytes_def split_def intro!: sum_list_nonneg)

lemma bitrates_snoc: "bitrates (xs @ [BITRATE kbps]) = bitrates xs @ [kbps]"
  by (induction xs rule: bitrates.induct) simp_all

lemma bitrate_loop_spec:
  "prev \<le> bytes_recv w \<Longrightarrow>
   \<forall>c \<in> set (readings (rtp_listeners w) (bytes_recv w) intervals). c - prev < 2 ^ 1000 \<Longrightarrow>
   \<exists>w'. bitrate_loop prev intervals w
            = (None, last (prev # readings (rtp_listeners w) (bytes_recv w) intervals), w')
     \<and> bitrates (q w')
          = bitrates (q w) @ samples prev (readings (rtp_listeners w) (bytes_recv w) intervals)
     \<and> bytes_recv w' = last (bytes_recv w # readings (rtp_listeners w) (bytes_recv w) intervals)"
proof (induction intervals arbitrary: prev w)
  case Nil
  then show ?case by simp
next
  case (Cons iv rest)
  let ?ls = "rtp_listeners w"
  let ?w1 = "fold (\<lambda>(k, payload). deliver_rtp k payload) iv w"
  let ?c1 = "bytes_recv w + interval_bytes ?ls iv"
  have e: "bytes_recv ?w1 = ?c1" "rtp_listeners ?w1 = ?ls" "bitrates (q ?w1) = bitrates (q w)"
    using interval_effect [of iv w] by simp_all
  have d0: "0 \<le> ?c1 - prev"
    using Cons.prems(1) interval_bytes_nonneg [of ?ls iv] by simp
  have d1: "?c1 - prev < 2 ^ 1000" using Cons.prems(2) by simp
  have rest_bound: "\<forall>c \<in> set (readings ?ls ?c1 rest). c - ?c1 < 2 ^ 1000"
  proof
    fix c assume "c \<in> set (readings ?ls ?c1 rest)"
    with Cons.prems(2) have "c - prev < 2 ^ 1000" by simp
    with d0 show "c - ?c1 < 2 ^ 1000" by simp
  qed
  show ?case
  proof (cases "?c1 - prev = 0")
    case True
    have t: "bitrate_tick prev ?w1 = (None, ?c1, ?w1)"
      using bitrate_tick_silent [of ?w1 prev] True e(1) by simp
    from Cons.IH [of ?c1 ?w1] rest_bound e obtain w' where
      ih: "bitrate_loop ?c1 rest ?w1 = (None, last (?c1 # readings ?ls ?c1 rest), w')"
        "bitrates (q w') = bitrates (q ?w1) @ samples ?c1 (readings ?ls ?c1 rest)"
        "bytes_recv w' = last (?c1 # readings ?ls ?c1 rest)"
      by auto
    show ?thesis
      apply (rule exI [of _ w'])
      using t ih e True by simp
  next
    case False
    with d0 have pos: "0 < ?c1 - prev" by simp
    let ?w2 = "emit (BITRATE (kbps_of (?c1 - prev))) ?w1"
    have t: "bitrate_tick prev ?w1 = (None, ?c1, ?w2)"
      using bitrate_tick_sample [of ?w1 prev] pos d1 e(1) by simp
    have e2: "bytes_recv ?w2 = ?c1" "rtp_listeners ?w2 = ?ls"
      "bitrates (q ?w2) = bitrates (q w) @ [kbps_of (?c1 - prev)]"
      using e by (simp_all add: emit_def bitrates_snoc)
    from Cons.IH [of ?c1 ?w2] rest_bound e2 obtain w' where
      ih: "bitrate_loop ?c1 rest ?w2 = (None, last (?c1 # readings ?ls ?c1 rest), w')"
        "bitrates (q w') = bitrates (q ?w2) @ samples ?c1 (readings ?ls ?c1 rest)"
        "bytes_recv w' = last (?c1 # readings ?ls ?c1 rest)"
      by auto
    show ?thesis
      apply (rule exI [of _ w'])
      using t ih e2 pos by simp
  qed
qed

text \<open>
  C6. Let the sampler start a pass with \<^verbatim>\<open>prev\<close> not above the counter, as it is in
  every run (the counter starts at 0 and only grows), and let the counter stay less
  than \<open>2 ^ 1000\<close> bytes above \<^verbatim>\<open>prev\<close> (the division \<^verbatim>\<open>delta * 8 / 1000\<close>
  overflows only beyond \<open>2 ^ 1030\<close> bytes). One pass takes the counter as the new
  \<^verbatim>\<open>prev\<close>; when the counter has not moved, it emits nothing; when it has grown by
  \<open>delta\<close>, it emits one \<^verbatim>\<open>BITRATE\<close> event whose \<^verbatim>\<open>kbps\<close> is the value of
  Python's \<^verbatim>\<open>delta * 8 / 1000\<close>. The loop over any intervals of packets ends without
  an exception with \<^verbatim>\<open>prev\<close> at the last reading of the counter, and the samples it
  has added to the queue are those of the specification's sampler on the counter's
  readings: for each interval, none when the counter did not move and one of
  \<open>delta * 8 / 1000\<close> when it grew by \<open>delta\<close>.
\<close>

theorem bitrate_sampler_samples:
  assumes "prev \<le> bytes_recv w"
    and "\<forall>c \<in> set (readings (rtp_listeners w) (bytes_recv w) intervals). c - prev < 2 ^ 1000"
  shows "(bytes_recv w - prev = 0 \<longrightarrow> bitrate_tick prev w = (None, bytes_recv w, w))
   \<and> (0 < bytes_recv w - prev \<and> bytes_recv w - prev < 2 ^ 1000 \<longrightarrow>
        bitrate_tick prev w
          = (None, bytes_recv w, emit (BITRATE (kbps_of (bytes_recv w - prev))) w)
        \<and> py_truediv ((bytes_recv w - prev) * 8) 1000 = Inr (kbps_of (bytes_recv w - prev)))
   \<and> (\<exists>w'. bitrate_loop prev intervals w
            = (None, last (prev # readings (rtp_listeners w) (bytes_recv w) intervals), w')
        \<and> bitrates (q w')
             = bitrates (q w) @ samples prev (readings (rtp_listeners w) (bytes_recv w) intervals)
        \<and> bytes_recv w' = last (bytes_recv w # readings (rtp_listeners w) (bytes_recv w) intervals))"
  using bitrate_tick_silent [of w prev] bitrate_tick_sample [of w prev]
        kbps_of_in_range [of "bytes_recv w - prev"] bitrate_loop_spec [OF assms]
  by blast

text \<open>
  Ten SBC packets of 1000 bytes in one interval give a sample of 80 kbps, the silent
  interval after it gives none, one more byte gives the double nearest to \<open>0.008\<close>,
  and packets on an endpoint without a listener give none.
\<close>

lemma kbps_of_10000: "kbps_of 10000 = 80"
  by code_simp

lemma kbps_of_1: "kbps_of 1 = 1152921504606847 / 144115188075855872"
  by code_simp

theorem bitrate_sampler_samples_witness:
  "0 \<le> bytes_recv ((init_bench False True)\<lparr>rtp_listeners := [''SBC'']\<rparr>)
   \<and> readings [''SBC''] 0
        [replicate 10 (''SBC'', replicate 1000 0x00), [], [(''SBC'', [0x9C])],
         [(''AAC'', [0x01, 0x02, 0x03])]]
       = [10000, 10000, 10001, 10001]
   \<and> fst (bitrate_loop 0
        [replicate 10 (''SBC'', replicate 1000 0x00), [], [(''SBC'', [0x9C])],
         [(''AAC'', [0x01, 0x02, 0x03])]]
        ((init_bench False True)\<lparr>rtp_listeners := [''SBC'']\<rparr>)) = None
   \<and> fst (snd (bitrate_loop 0
        [replicate 10 (''SBC'', replicate 1000 0x00), [], [(''SBC'', [0x9C])],
         [(''AAC'', [0x01, 0x02, 0x03])]]
        ((init_bench False True)\<lparr>rtp_listeners := [''SBC'']\<rparr>))) = 10001
   \<and> bitrates (q (snd (snd (bitrate_loop 0
        [replicate 10 (''SBC'', replicate 1000 0x00), [], [(''SBC'', [0x9C])],
         [(''AAC'', [0x01, 0x02, 0x03])]]
        ((init_bench False True)\<lparr>rtp_listeners := [''SBC'']\<rparr>)))))
       = [80, 1152921504606847 / 144115188075855872]"
proof -
  let ?w = "(init_bench False True)\<lparr>rtp_listeners := [''SBC'']\<rparr>"
  let ?ivs = "[replicate 10 (''SBC'', replicate 1000 (0x00 :: byte)), [], [(''SBC'', [0x9C])],
         [(''AAC'', [0x01, 0x02, 0x03])]]"
  have w: "bytes_recv ?w = 0" "rtp_listeners ?w = [''SBC'']" "q ?w = []"
    by (simp_all add: init_bench_def)
  have rd: "readings [''SBC''] 0 ?ivs = [10000, 10000, 10001, 10001]"
    by (simp add: interval_bytes_def replicate_ten)
  have h1: "0 \<le> bytes_recv ?w" by (simp add: w)
  have h2: "\<forall>c \<in> set (readings (rtp_listeners ?w) (bytes_recv ?w) ?ivs). c - 0 < 2 ^ 1000"
    unfolding w rd by simp
  from bitrate_sampler_samples [OF h1 h2] obtain w' where
    r: "bitrate_loop 0 ?ivs ?w
          = (None, last (0 # readings (rtp_listeners ?w) (bytes_recv ?w) ?ivs), w')"
       "bitrates (q w')
          = bitrates (q ?w) @ samples 0 (readings (rtp_listeners ?w) (bytes_recv ?w) ?ivs)"
    by blast
  have s: "samples 0 [10000, 10000, 10001, 10001] = [80, 1152921504606847 / 144115188075855872]"
    by (simp add: kbps_of_10000 kbps_of_1)
  note r' = r [unfolded w rd s]
  show ?thesis
    unfolding rd using h1 r' by simp
qed

section \<open>Registration failures\<close>













end
